theory Spec2Isabelle
  imports Complex_Main "HOL-Library.Char_ord" "HOL-Library.List_Lexorder"
begin

section \<open>Data model\<close>

text \<open>
  \<open>app.py\<close> is a Streamlit script over pandas data frames. A spreadsheet cell
  is empty (pandas \<open>NaN\<close>/\<open>NaT\<close>), a text, a number or a calendar date (a pandas
  \<open>Timestamp\<close>, kept as year, month and day; the time of day plays no role in the script).
  A number is kept as the real it denotes; the arithmetic of the library on such numbers
  (64-bit integers, doubles) is written out or is a parameter where the script uses it.
\<close>

datatype cell = Null | Str string | Num real | Timestamp nat nat nat

text \<open>
  A data frame is its list of column labels and its rows, every row holding one cell per
  column, in column order.
\<close>

record frame =
  columns :: "string list"
  rows :: "cell list list"

definition wf_frame :: "frame \<Rightarrow> bool" where
  "wf_frame df = list_all (\<lambda>r. length r = length (columns df)) (rows df)"

text \<open>
  The exceptions the script can meet, each with the text that \<open>str(e)\<close> yields.
\<close>

datatype error =
    FileNotFoundError string
  | BadZipFile string
  | ValueError string
  | KeyError string
  | TypeError string
  | OSError string

fun str_exc :: "error \<Rightarrow> string" where
  "str_exc (FileNotFoundError m) = m"
| "str_exc (BadZipFile m) = m"
| "str_exc (ValueError m) = m"
| "str_exc (KeyError k) = [CHR 0x27] @ k @ [CHR 0x27]"
| "str_exc (TypeError m) = m"
| "str_exc (OSError m) = m"

fun index_of :: "'a \<Rightarrow> 'a list \<Rightarrow> nat option" where
  "index_of x [] = None"
| "index_of x (y # ys) = (if x = y then Some 0 else map_option Suc (index_of x ys))"

text \<open>\<open>df[col]\<close>: the position of a column label, or \<open>KeyError\<close>.\<close>

definition column_index :: "frame \<Rightarrow> string \<Rightarrow> error + nat" where
  "column_index df c =
     (case index_of c (columns df) of None \<Rightarrow> Inl (KeyError c) | Some i \<Rightarrow> Inr i)"

section \<open>Dates: \<open>pd.to_datetime(..., format='%d/%m/%y')\<close>\<close>

definition is_digit :: "char \<Rightarrow> bool" where
  "is_digit c = (CHR ''0'' \<le> c \<and> c \<le> CHR ''9'')"

definition digit_val :: "char \<Rightarrow> nat" where
  "digit_val c = of_char c - of_char CHR ''0''"

text \<open>
  A text is kept as its UTF-8 bytes; the pattern of a directive looks at characters. The
  characters of a text: a lead byte says how many bytes its character has.
\<close>

definition utf8_len :: "char \<Rightarrow> nat" where
  "utf8_len c =
     (if (of_char c :: nat) < 0xC0 then 1 else if (of_char c :: nat) < 0xE0 then 2
      else if (of_char c :: nat) < 0xF0 then 3 else 4)"

function utf8_chars :: "string \<Rightarrow> string list" where
  "utf8_chars [] = []"
| "utf8_chars (c # cs) = (c # take (utf8_len c - 1) cs) # utf8_chars (drop (utf8_len c - 1) cs)"
  by pat_completeness auto
termination
  by (relation "measure length") auto

text \<open>
  The pattern \<open>\d\<close> takes every decimal digit of Unicode, and \<open>int\<close> reads each with its
  value. The digits of ASCII are fixed; which other characters are decimal digits depends on
  the Unicode tables of the interpreter and is a parameter of the development: a table from
  the bytes of one character outside ASCII to its digit value.
\<close>

type_synonym digit_table = "string \<Rightarrow> nat option"

definition decimal :: "digit_table \<Rightarrow> string \<Rightarrow> nat option" where
  "decimal nd ch =
     (case ch of
        [c] \<Rightarrow> if is_digit c then Some (digit_val c) else None
      | _ \<Rightarrow> (case nd ch of Some v \<Rightarrow> if v \<le> 9 then Some v else None | None \<Rightarrow> None))"

text \<open>A character class \<open>[lo-hi]\<close> of ASCII digits.\<close>

definition in_range :: "char \<Rightarrow> char \<Rightarrow> string \<Rightarrow> nat option" where
  "in_range lo hi ch =
     (case ch of [c] \<Rightarrow> if lo \<le> c \<and> c \<le> hi then Some (digit_val c) else None | _ \<Rightarrow> None)"

text \<open>
  The directive \<open>%d\<close> is the pattern \<open>3[0-1]|[1-2]\d|0[1-9]|[1-9]| [1-9]\<close>, \<open>%m\<close> is
  \<open>1[0-2]|0[1-9]|[1-9]\<close> and \<open>%y\<close> is \<open>\d\d\<close>; the whole text has to be consumed. The
  functions below take the characters of one field.
\<close>

fun parse_day :: "digit_table \<Rightarrow> string list \<Rightarrow> nat option" where
  "parse_day nd [a] = in_range CHR ''1'' CHR ''9'' a"
| "parse_day nd [a, b] =
     (if a = ''3'' then map_option (\<lambda>v. 30 + v) (in_range CHR ''0'' CHR ''1'' b)
      else if a = ''1'' then map_option (\<lambda>v. 10 + v) (decimal nd b)
      else if a = ''2'' then map_option (\<lambda>v. 20 + v) (decimal nd b)
      else if a = ''0'' \<or> a = '' '' then in_range CHR ''1'' CHR ''9'' b
      else None)"
| "parse_day nd _ = None"

fun parse_month :: "string list \<Rightarrow> nat option" where
  "parse_month [a] = in_range CHR ''1'' CHR ''9'' a"
| "parse_month [a, b] =
     (if a = ''1'' then map_option (\<lambda>v. 10 + v) (in_range CHR ''0'' CHR ''2'' b)
      else if a = ''0'' then in_range CHR ''1'' CHR ''9'' b
      else None)"
| "parse_month _ = None"

text \<open>A two-digit year: 69 to 99 are 1969 to 1999, 00 to 68 are 2000 to 2068.\<close>

definition century :: "nat \<Rightarrow> nat" where
  "century n = (if n \<le> 68 then 2000 + n else 1900 + n)"

fun parse_year :: "digit_table \<Rightarrow> string list \<Rightarrow> nat option" where
  "parse_year nd [a, b] =
     (case (decimal nd a, decimal nd b) of
        (Some x, Some y) \<Rightarrow> Some (century (10 * x + y))
      | _ \<Rightarrow> None)"
| "parse_year nd _ = None"

definition is_leap :: "nat \<Rightarrow> bool" where
  "is_leap y = (y mod 4 = 0 \<and> (y mod 100 \<noteq> 0 \<or> y mod 400 = 0))"

definition days_in_month :: "nat \<Rightarrow> nat \<Rightarrow> nat" where
  "days_in_month y m =
     (if m = 2 then (if is_leap y then 29 else 28)
      else if m \<in> {4, 6, 9, 11} then 30 else 31)"

text \<open>The fields of a text between its \<open>/\<close> separators.\<close>

fun split_slash :: "string \<Rightarrow> string list" where
  "split_slash [] = [[]]"
| "split_slash (c # cs) =
     (if c = CHR ''/'' then [] # split_slash cs
      else (case split_slash cs of [] \<Rightarrow> [[c]] | f # fs \<Rightarrow> (c # f) # fs))"

definition strptime :: "digit_table \<Rightarrow> string \<Rightarrow> cell option" where
  "strptime nd s =
     (case split_slash s of
        [ds, ms, ys] \<Rightarrow>
          (case (parse_day nd (utf8_chars ds), parse_month (utf8_chars ms),
                 parse_year nd (utf8_chars ys)) of
             (Some d, Some m, Some y) \<Rightarrow>
               if d \<le> days_in_month y m then Some (Timestamp y m d) else None
           | _ \<Rightarrow> None)
      | _ \<Rightarrow> None)"

text \<open>
  One element of the column under \<open>pd.to_datetime\<close> with a format and the default
  \<open>errors='raise'\<close>: an empty cell stays empty (\<open>NaT\<close>), a date stays as it is, a text is
  parsed with the format, and anything else is turned into text that cannot hold the two
  separators.
\<close>

definition time_data_error :: "string \<Rightarrow> error" where
  "time_data_error s = ValueError (''time data '' @ s @ '' does not match format %d/%m/%y'')"

fun to_datetime_cell :: "digit_table \<Rightarrow> cell \<Rightarrow> error + cell" where
  "to_datetime_cell nd Null = Inr Null"
| "to_datetime_cell nd (Timestamp y m d) = Inr (Timestamp y m d)"
| "to_datetime_cell nd (Str s) =
     (case strptime nd s of None \<Rightarrow> Inl (time_data_error s) | Some t \<Rightarrow> Inr t)"
| "to_datetime_cell nd (Num x) = Inl (time_data_error ''<number>'')"

text \<open>The conversion of a whole column stops at the first cell that raises.\<close>

fun to_datetime :: "digit_table \<Rightarrow> cell list \<Rightarrow> error + cell list" where
  "to_datetime nd [] = Inr []"
| "to_datetime nd (c # cs) =
     (case to_datetime_cell nd c of
        Inl e \<Rightarrow> Inl e
      | Inr t \<Rightarrow> (case to_datetime nd cs of Inl e \<Rightarrow> Inl e | Inr ts \<Rightarrow> Inr (t # ts)))"

text \<open>\<open>df[col] = pd.to_datetime(df[col], format='%d/%m/%y')\<close>.\<close>

definition convert_column :: "digit_table \<Rightarrow> frame \<Rightarrow> string \<Rightarrow> error + frame" where
  "convert_column nd df col =
     (case column_index df col of
        Inl e \<Rightarrow> Inl e
      | Inr i \<Rightarrow>
          (case to_datetime nd (map (\<lambda>r. r ! i) (rows df)) of
             Inl e \<Rightarrow> Inl e
           | Inr ts \<Rightarrow> Inr (df\<lparr>rows := map (\<lambda>(r, t). r[i := t]) (zip (rows df) ts)\<rparr>)))"



section \<open>The loader\<close>

text \<open>
  A path names nothing, a file that is no spreadsheet, or a workbook: its sheets by name,
  each already a table with a header row.
\<close>

datatype stored_file = NotExcel | Workbook "(string \<times> frame) list"

type_synonym filesystem = "string \<rightharpoonup> stored_file"

definition read_excel :: "filesystem \<Rightarrow> string \<Rightarrow> string \<Rightarrow> error + frame" where
  "read_excel fs path sheet_name =
     (case fs path of
        None \<Rightarrow> Inl (FileNotFoundError (''No such file or directory: '' @ path))
      | Some NotExcel \<Rightarrow> Inl (BadZipFile ''File is not a zip file'')
      | Some (Workbook sheets) \<Rightarrow>
          (case map_of sheets sheet_name of
             None \<Rightarrow> Inl (ValueError (''Worksheet named '' @ sheet_name @ '' not found''))
           | Some df \<Rightarrow> Inr df))"

definition fecha_entrada_caja :: string where
  "fecha_entrada_caja = ''fecha_entrada_caja''"

text \<open>The label \<open>fecha_preparaci\'on_caja\<close>; the accented letter is two bytes of UTF-8.\<close>

definition fecha_preparacion_caja :: string where
  "fecha_preparacion_caja = ''fecha_preparaci'' @ [CHR 0xC3, CHR 0xB3] @ ''n_caja''"

definition date_columns :: "string list" where
  "date_columns = [fecha_entrada_caja, fecha_preparacion_caja]"

text \<open>The loop \<open>for col in date_columns\<close>; an exception ends it.\<close>

fun convert_columns :: "digit_table \<Rightarrow> frame \<Rightarrow> string list \<Rightarrow> error + frame" where
  "convert_columns nd df [] = Inr df"
| "convert_columns nd df (col # cols) =
     (case convert_column nd df col of
        Inl e \<Rightarrow> Inl e
      | Inr df' \<Rightarrow> convert_columns nd df' cols)"

subsection \<open>\<open>pd.merge(left, right, left_on, right_on, how='left')\<close>\<close>

text \<open>
  A label that both frames carry gets the suffix \<open>_x\<close> on the left and \<open>_y\<close> on the right.
\<close>

definition suffixed :: "string \<Rightarrow> string list \<Rightarrow> string \<Rightarrow> string" where
  "suffixed sfx others c = (if c \<in> set others then c @ sfx else c)"

definition matches :: "nat \<Rightarrow> cell list list \<Rightarrow> cell \<Rightarrow> cell list list" where
  "matches kj rrows k = filter (\<lambda>r. r ! kj = k) rrows"

text \<open>
  The rows that one left row gives: one per right row with an equal key, in the order of the
  right frame, and one row padded with empty cells when no key is equal.
\<close>

definition merge_row :: "nat \<Rightarrow> nat \<Rightarrow> nat \<Rightarrow> cell list list \<Rightarrow> cell list \<Rightarrow> cell list list" where
  "merge_row ki kj n rrows l =
     (case matches kj rrows (l ! ki) of
        [] \<Rightarrow> [l @ replicate n Null]
      | m # ms \<Rightarrow> map (\<lambda>r. l @ r) (m # ms))"

definition merge :: "frame \<Rightarrow> frame \<Rightarrow> string \<Rightarrow> string \<Rightarrow> error + frame" where
  "merge left right left_on right_on =
     (case column_index right right_on of
        Inl e \<Rightarrow> Inl e
      | Inr kj \<Rightarrow>
          (case column_index left left_on of
             Inl e \<Rightarrow> Inl e
           | Inr ki \<Rightarrow>
               Inr \<lparr>columns = map (suffixed ''_x'' (columns right)) (columns left)
                               @ map (suffixed ''_y'' (columns left)) (columns right),
                    rows = concat (map (merge_row ki kj (length (columns right)) (rows right))
                                       (rows left))\<rparr>))"

subsection \<open>The body of \<open>load_excel\<close>\<close>

text \<open>What the \<open>try\<close> block computes: the three frames, or the exception it raised.\<close>

definition load_excel_try ::
  "digit_table \<Rightarrow> filesystem \<Rightarrow> string \<Rightarrow> error + (frame \<times> frame \<times> frame)" where
  "load_excel_try nd fs file_path =
     (case read_excel fs file_path ''Entradas'' of
        Inl e \<Rightarrow> Inl e
      | Inr entradas0 \<Rightarrow>
          (case read_excel fs file_path ''Familias'' of
             Inl e \<Rightarrow> Inl e
           | Inr familias_df \<Rightarrow>
               (case convert_columns nd entradas0 date_columns of
                  Inl e \<Rightarrow> Inl e
                | Inr entradas_df \<Rightarrow>
                    (case merge entradas_df familias_df ''codigo'' ''CODIGO'' of
                       Inl e \<Rightarrow> Inl e
                     | Inr merged_df \<Rightarrow> Inr (entradas_df, familias_df, merged_df)))))"

section \<open>The aggregator\<close>

subsection \<open>The derived columns \<open>mes\<close> and \<open>a\~no\<close>\<close>

definition digit_char :: "nat \<Rightarrow> char" where
  "digit_char n = ''0123456789'' ! (n mod 10)"

definition pad2 :: "nat \<Rightarrow> string" where
  "pad2 n = [digit_char (n div 10), digit_char n]"

definition pad4 :: "nat \<Rightarrow> string" where
  "pad4 n = [digit_char (n div 1000), digit_char (n div 100), digit_char (n div 10), digit_char n]"

text \<open>
  \<open>.dt.strftime('%Y-%m')\<close> and \<open>.dt.year\<close> on one element of a date column. The accessor
  \<open>.dt\<close> exists on date columns only.
\<close>

fun strftime_Ym :: "cell \<Rightarrow> error + cell" where
  "strftime_Ym Null = Inr Null"
| "strftime_Ym (Timestamp y m d) = Inr (Str (pad4 y @ ''-'' @ pad2 m))"
| "strftime_Ym _ = Inl (TypeError ''Can only use .dt accessor with datetimelike values'')"

fun dt_year :: "cell \<Rightarrow> error + cell" where
  "dt_year Null = Inr Null"
| "dt_year (Timestamp y m d) = Inr (Num (real y))"
| "dt_year _ = Inl (TypeError ''Can only use .dt accessor with datetimelike values'')"

fun map_cells :: "(cell \<Rightarrow> error + cell) \<Rightarrow> cell list \<Rightarrow> error + cell list" where
  "map_cells f [] = Inr []"
| "map_cells f (c # cs) =
     (case f c of
        Inl e \<Rightarrow> Inl e
      | Inr t \<Rightarrow> (case map_cells f cs of Inl e \<Rightarrow> Inl e | Inr ts \<Rightarrow> Inr (t # ts)))"

text \<open>
  \<open>df[name] = values\<close>: an existing column is overwritten in place, a new one is appended.
\<close>

definition set_column :: "frame \<Rightarrow> string \<Rightarrow> cell list \<Rightarrow> frame" where
  "set_column df name vs =
     (case index_of name (columns df) of
        Some i \<Rightarrow> df\<lparr>rows := map (\<lambda>(r, v). r[i := v]) (zip (rows df) vs)\<rparr>
      | None \<Rightarrow> df\<lparr>columns := columns df @ [name],
                    rows := map (\<lambda>(r, v). r @ [v]) (zip (rows df) vs)\<rparr>)"

definition anio :: string where
  "anio = ''a'' @ [CHR 0xC3, CHR 0xB1] @ ''o''"

text \<open>
  \<open>merged_df['mes'] = merged_df['fecha_entrada_caja'].dt.strftime('%Y-%m')\<close> and
  \<open>merged_df['a\~no'] = merged_df['fecha_entrada_caja'].dt.year\<close>.
\<close>

definition add_month_columns :: "frame \<Rightarrow> error + frame" where
  "add_month_columns merged_df =
     (case column_index merged_df fecha_entrada_caja of
        Inl e \<Rightarrow> Inl e
      | Inr i \<Rightarrow>
          (case map_cells strftime_Ym (map (\<lambda>r. r ! i) (rows merged_df)) of
             Inl e \<Rightarrow> Inl e
           | Inr ms \<Rightarrow>
               (let df1 = set_column merged_df ''mes'' ms in
                (case column_index df1 fecha_entrada_caja of
                   Inl e \<Rightarrow> Inl e
                 | Inr j \<Rightarrow>
                     (case map_cells dt_year (map (\<lambda>r. r ! j) (rows df1)) of
                        Inl e \<Rightarrow> Inl e
                      | Inr ys \<Rightarrow> Inr (set_column df1 anio ys))))))"

subsection \<open>Group keys and their order\<close>

text \<open>
  \<open>groupby\<close> sorts its group keys. Numbers come before texts, texts are compared by their
  code points, dates by calendar order. (A key column that holds both numbers and dates
  cannot be sorted by the library, which raises; the aggregations below do not model that
  exception, and what is proved of them is about the calls that return.)
\<close>

fun cell_le :: "cell \<Rightarrow> cell \<Rightarrow> bool" where
  "cell_le Null _ = True"
| "cell_le (Num x) Null = False"
| "cell_le (Num x) (Num y) = (x \<le> y)"
| "cell_le (Num x) _ = True"
| "cell_le (Str s) (Str t) = (s \<le> t)"
| "cell_le (Str s) (Timestamp y m d) = True"
| "cell_le (Str s) _ = False"
| "cell_le (Timestamp y m d) (Timestamp y' m' d') =
     (y < y' \<or> (y = y' \<and> (m < m' \<or> (m = m' \<and> d \<le> d'))))"
| "cell_le (Timestamp y m d) _ = False"

definition pair_le :: "cell \<times> cell \<Rightarrow> cell \<times> cell \<Rightarrow> bool" where
  "pair_le p q = (if fst p = fst q then cell_le (snd p) (snd q) else cell_le (fst p) (fst q))"

fun insort_by :: "('a \<Rightarrow> 'a \<Rightarrow> bool) \<Rightarrow> 'a \<Rightarrow> 'a list \<Rightarrow> 'a list" where
  "insort_by le x [] = [x]"
| "insort_by le x (y # ys) = (if le x y then x # y # ys else y # insort_by le x ys)"

definition sort_by :: "('a \<Rightarrow> 'a \<Rightarrow> bool) \<Rightarrow> 'a list \<Rightarrow> 'a list" where
  "sort_by le xs = foldr (insort_by le) xs []"

text \<open>The distinct values of a list, in sorted order.\<close>

definition uniques :: "('a \<Rightarrow> 'a \<Rightarrow> bool) \<Rightarrow> 'a list \<Rightarrow> 'a list" where
  "uniques le xs = sort_by le (remdups xs)"

subsection \<open>The proportion modes\<close>

text \<open>
  \<open>df.groupby([key, 'CALIDAD']).size()\<close>: the rows in which either key is empty are
  dropped (\<open>dropna=True\<close>); the result has one entry per pair of key values that occurs,
  holding the number of rows with that pair.
\<close>

definition group_keys :: "cell list list \<Rightarrow> nat \<Rightarrow> nat \<Rightarrow> (cell \<times> cell) list" where
  "group_keys rs i j =
     filter (\<lambda>k. fst k \<noteq> Null \<and> snd k \<noteq> Null) (map (\<lambda>r. (r ! i, r ! j)) rs)"

definition groupby_size :: "cell list list \<Rightarrow> nat \<Rightarrow> nat \<Rightarrow> ((cell \<times> cell) \<times> nat) list" where
  "groupby_size rs i j =
     (let ks = group_keys rs i j
      in map (\<lambda>k. (k, count_list ks k)) (uniques pair_le ks))"

text \<open>
  A pivoted table: the row labels, the column labels and one list of values per row label.
\<close>

record 'a pivot =
  index :: "cell list"
  labels :: "cell list"
  cells :: "'a list list"

text \<open>
  \<open>.unstack(fill_value=0)\<close>: the second key level becomes the columns, and a pair that
  does not occur is filled in.
\<close>

definition unstack :: "nat \<Rightarrow> ((cell \<times> cell) \<times> nat) list \<Rightarrow> nat pivot" where
  "unstack fill_value s =
     (let idx = uniques cell_le (map (fst \<circ> fst) s);
          lbs = uniques cell_le (map (snd \<circ> fst) s)
      in \<lparr>index = idx, labels = lbs,
          cells = map (\<lambda>a. map (\<lambda>b. case map_of s (a, b) of None \<Rightarrow> fill_value
                                                          | Some n \<Rightarrow> n) lbs) idx\<rparr>)"

text \<open>
  \<open>t.div(t.sum(axis=1), axis=0)\<close>: every count is divided by the sum of its row. The counts
  are integers and the quotient is a float: \<open>fdiv\<close> is that division, a parameter of the
  development. A zero divided by a zero row sum would be \<open>NaN\<close>, written \<open>None\<close>.
\<close>

definition div_rows :: "(nat \<Rightarrow> nat \<Rightarrow> real) \<Rightarrow> nat pivot \<Rightarrow> real option pivot" where
  "div_rows fdiv t =
     \<lparr>index = index t, labels = labels t,
      cells = map (\<lambda>row. map (\<lambda>n. if sum_list row = 0 then None
                                   else Some (fdiv n (sum_list row))) row) (cells t)\<rparr>"

text \<open>
  The two lines shared by the modes \<open>quality_by_month\<close>, \<open>quality_by_origin\<close> and
  \<open>quality_by_family\<close>, which differ in the first group key only.
\<close>

definition quality_by :: "(nat \<Rightarrow> nat \<Rightarrow> real) \<Rightarrow> string \<Rightarrow> frame \<Rightarrow> error + real option pivot" where
  "quality_by fdiv key merged_df =
     (case column_index merged_df key of
        Inl e \<Rightarrow> Inl e
      | Inr i \<Rightarrow>
          (case column_index merged_df ''CALIDAD'' of
             Inl e \<Rightarrow> Inl e
           | Inr j \<Rightarrow> Inr (div_rows fdiv (unstack 0 (groupby_size (rows merged_df) i j)))))"




subsection \<open>The value modes\<close>

text \<open>
  The type of a numeric column. \<open>read_excel\<close> turns a number without fraction into an
  integer, so a column of such numbers (within 64 bits, no empty cell) is \<open>int64\<close>; numbers
  with empty cells or fractions make it \<open>float64\<close>; anything else is left to the library.
\<close>

datatype dtype = Int64 | Float64 | Other

definition is_integer :: "real \<Rightarrow> bool" where
  "is_integer x = (x = of_int \<lfloor>x\<rfloor>)"





text \<open>
  The arithmetic of the library, as far as the script uses it, is a parameter of the
  development: the sum of a list of doubles as the grouped aggregations compute it, the
  division of two doubles, the conversion of a 64-bit integer to a double, and the mean and
  the sum over one group of a column (given first) that is not numeric.
\<close>

record numerics =
  float_sum :: "real list \<Rightarrow> real"
  float_div :: "real \<Rightarrow> real \<Rightarrow> real"
  to_float :: "real \<Rightarrow> real"
  other_mean :: "cell list \<Rightarrow> cell list \<Rightarrow> error + cell"
  other_sum :: "cell list \<Rightarrow> cell list \<Rightarrow> error + cell"












subsection \<open>The six chart modes\<close>

text \<open>The options of the select box \<open>Seleccionar Tipo de Gr\'afico\<close>, in its order.\<close>

datatype plot_type =
    Calidad_por_Mes
  | Calidad_por_Origen
  | Valores_por_Calidad
  | Valor_por_Mes
  | Calidad_por_Familia
  | Valor_Promedio_por_Origen_y_Calidad

text \<open>What is handed to \<open>st.plotly_chart\<close>: the data of the figure.\<close>

datatype chart =
    Bar "real option pivot"
  | Box "(cell \<times> cell) list"
  | Line_and_bars "(cell \<times> cell \<times> cell) list"
  | Coloured_bars "(cell \<times> cell \<times> cell) list"


section \<open>The script\<close>

subsection \<open>What a run puts on the page\<close>

text \<open>
  \<open>merged_df.to_csv(index=False)\<close>: the header and one record per row. The rendering of a
  cell as text is left out.
\<close>

datatype csv = Csv "string list" "cell list list"

definition to_csv :: "frame \<Rightarrow> csv" where
  "to_csv df = Csv (columns df) (rows df)"

fun csv_records :: "csv \<Rightarrow> cell list list" where
  "csv_records (Csv h rs) = rs"

datatype element =
    St_error string
  | St_info string
  | St_title string
  | St_subheader string
  | St_write string
  | St_dataframe frame
  | St_dtypes "string list"
  | St_plotly_chart chart
  | St_download_button csv
  | Sidebar_title string
  | Sidebar_info string
  | Sidebar_warning string
  | Sidebar_subheader string

definition o_acute :: string where
  "o_acute = [CHR 0xC3, CHR 0xB3]"


subsection \<open>\<open>load_excel\<close> and its cache\<close>

text \<open>
  \<open>load_excel\<close> returns three frames, or three times \<open>None\<close> after \<open>st.error\<close> when the
  \<open>try\<close> block raised. Both the returned triple and the elements the call put on the page
  are given.
\<close>

type_synonym tables = "frame option \<times> frame option \<times> frame option"

definition load_excel :: "digit_table \<Rightarrow> filesystem \<Rightarrow> string \<Rightarrow> tables \<times> element list" where
  "load_excel nd fs file_path =
     (case load_excel_try nd fs file_path of
        Inr (entradas_df, familias_df, merged_df) \<Rightarrow>
          ((Some entradas_df, Some familias_df, Some merged_df), [])
      | Inl e \<Rightarrow>
          ((None, None, None),
           [St_error (''Error al cargar el archivo Excel: '' @ str_exc e)]))"

text \<open>
  \<open>@st.cache_data\<close>: the first call with an argument runs the function and stores what it
  returned and what it put on the page under that argument; a later call with the same
  argument hands out the stored copy and shows the stored elements again, without running
  the function.
\<close>

type_synonym cache = "(string \<times> (tables \<times> element list)) list"

definition load_excel_cached ::
  "digit_table \<Rightarrow> cache \<Rightarrow> filesystem \<Rightarrow> string \<Rightarrow> (tables \<times> element list) \<times> cache" where
  "load_excel_cached nd c fs file_path =
     (case map_of c file_path of
        Some r \<Rightarrow> (r, c)
      | None \<Rightarrow> (let r = load_excel nd fs file_path in (r, (file_path, r) # c)))"

subsection \<open>Files\<close>

text \<open>
  The state that outlives a run: the files on disk by path (the first entry of a path
  counts), whether the upload directory can be written, and the cache of \<open>load_excel\<close>.
\<close>

record world =
  files :: "(string \<times> stored_file) list"
  uploads_writable :: bool
  cached :: cache

definition default_file :: string where
  "default_file = ''data/data.xlsx''"

definition upload_path :: "string \<Rightarrow> string" where
  "upload_path name = ''uploaded_files/'' @ name"

definition endswith :: "string \<Rightarrow> string \<Rightarrow> bool" where
  "endswith s sfx = (length sfx \<le> length s \<and> drop (length s - length sfx) s = sfx)"

text \<open>\<open>os.listdir(UPLOAD_DIR)\<close>: the names directly under the upload directory.\<close>

definition listdir_uploads :: "world \<Rightarrow> string list" where
  "listdir_uploads w =
     remdups (map (drop 15)
       (filter (\<lambda>p. take 15 p = ''uploaded_files/'' \<and> CHR ''/'' \<notin> set (drop 15 p)
                     \<and> drop 15 p \<noteq> [])
               (map fst (files w))))"

text \<open>
  \<open>save_uploaded_file\<close>: the upload is written under its own name, replacing a file of
  that name; when writing raises, \<open>st.error\<close> shows the message and \<open>None\<close> is returned.
\<close>

definition save_uploaded_file ::
  "world \<Rightarrow> string \<times> stored_file \<Rightarrow> string option \<times> element list \<times> world" where
  "save_uploaded_file w up =
     (if uploads_writable w
      then (Some (upload_path (fst up)), [],
            w\<lparr>files := (upload_path (fst up), snd up) # files w\<rparr>)
      else (None,
            [St_error (''Error al guardar el archivo: ''
                       @ str_exc (OSError (''Permission denied: '' @ upload_path (fst up))))],
            w))"

text \<open>A call of \<open>load_excel\<close> from the script, through the cache.\<close>

definition call_load_excel ::
  "digit_table \<Rightarrow> world \<Rightarrow> string \<Rightarrow> tables \<times> element list \<times> world" where
  "call_load_excel nd w file_path =
     (case load_excel_cached nd (cached w) (map_of (files w)) file_path of
        ((t, els), c) \<Rightarrow> (t, els, w\<lparr>cached := c\<rparr>))"

subsection \<open>The three sources of data, in the order of the script\<close>

text \<open>What the user did in the run that is being served.\<close>

record inputs =
  uploaded_file :: "(string \<times> stored_file) option"
  selected :: nat
  plot_choice :: plot_type
  download_clicked :: bool

text \<open>\<open>st.selectbox\<close> returns the option the user chose, the first one by default.\<close>

definition selectbox :: "'a list \<Rightarrow> nat \<Rightarrow> 'a" where
  "selectbox options i = (if i < length options then options ! i else options ! 0)"

text \<open>Lines 59 to 65: the default file.\<close>

definition default_step :: "digit_table \<Rightarrow> world \<Rightarrow> tables \<times> element list \<times> world" where
  "default_step nd w =
     (if map_of (files w) default_file \<noteq> None
      then (case call_load_excel nd w default_file of
              (t, els, w') \<Rightarrow>
                (t, Sidebar_info ''Archivo por defecto encontrado en la carpeta data'' # els, w'))
      else ((None, None, None),
            [Sidebar_warning (''No se encontr'' @ o_acute
                              @ '' el archivo por defecto en la carpeta data'')], w))"

text \<open>Lines 71 to 77: a file uploaded in an earlier run and selected in the side bar.\<close>

definition previous_files :: "world \<Rightarrow> string list" where
  "previous_files w = filter (\<lambda>f. endswith f ''.xlsx'') (listdir_uploads w)"

definition previous_step ::
  "digit_table \<Rightarrow> inputs \<Rightarrow> tables \<Rightarrow> world \<Rightarrow> tables \<times> element list \<times> world" where
  "previous_step nd inp t w =
     (if previous_files w \<noteq> []
      then (let selected_file = selectbox (previous_files w) (selected inp) in
            if selected_file \<noteq> []
            then (case call_load_excel nd w (upload_path selected_file) of
                    (t', els, w') \<Rightarrow>
                      (t', Sidebar_subheader ''Archivos subidos anteriormente'' # els, w'))
            else (t, [Sidebar_subheader ''Archivos subidos anteriormente''], w))
      else (t, [], w))"

text \<open>Lines 82 to 85: a file uploaded in this run.\<close>

definition upload_step ::
  "digit_table \<Rightarrow> inputs \<Rightarrow> tables \<Rightarrow> world \<Rightarrow> tables \<times> element list \<times> world" where
  "upload_step nd inp t w =
     (case uploaded_file inp of
        None \<Rightarrow> (t, [], w)
      | Some up \<Rightarrow>
          (case save_uploaded_file w up of
             (None, els, w') \<Rightarrow> (t, els, w')
           | (Some file_path, els, w') \<Rightarrow>
               (case call_load_excel nd w' file_path of
                  (t', els', w'') \<Rightarrow> (t', els @ els', w''))))"

definition resolve_tables ::
  "digit_table \<Rightarrow> inputs \<Rightarrow> world \<Rightarrow> tables \<times> element list \<times> world" where
  "resolve_tables nd inp w =
     (case default_step nd w of
        (t0, els0, w0) \<Rightarrow>
          (case previous_step nd inp t0 w0 of
             (t1, els1, w1) \<Rightarrow>
               (case upload_step nd inp t1 w1 of
                  (t2, els2, w2) \<Rightarrow>
                    (t2,
                     Sidebar_title (''Gesti'' @ o_acute @ ''n de Archivos'') # els0 @ els1
                       @ St_title ''Analizador de Datos Excel'' # els2,
                     w2))))"

subsection \<open>Preview, chart and download\<close>





text \<open>The exact quotient, as an instance of the float division.\<close>

definition exact_div :: "nat \<Rightarrow> nat \<Rightarrow> real" where
  "exact_div n t = real n / real t"

section \<open>A sample workbook\<close>

definition entradas_sample :: frame where
  "entradas_sample =
     \<lparr>columns = [''codigo'', fecha_entrada_caja, fecha_preparacion_caja, ''valor''],
      rows = [[Str ''A1'', Str ''01/01/24'', Str ''02/01/24'', Num 100],
              [Str ''A2'', Str ''01/01/24'', Str ''03/01/24'', Num 200]]\<rparr>"

definition familias_sample :: frame where
  "familias_sample =
     \<lparr>columns = [''CODIGO'', ''FAMILIA'', ''ORIGEN'', ''CALIDAD''],
      rows = [[Str ''A1'', Str ''F1'', Str ''ES'', Str ''Alta''],
              [Str ''A2'', Str ''F2'', Str ''FR'', Str ''Baja'']]\<rparr>"

definition sample_book :: stored_file where
  "sample_book = Workbook [(''Entradas'', entradas_sample), (''Familias'', familias_sample)]"



text \<open>A family table with a repeated code, and entries of which one has no family.\<close>

definition familias_dup :: frame where
  "familias_dup =
     \<lparr>columns = [''CODIGO'', ''FAMILIA'', ''ORIGEN'', ''CALIDAD''],
      rows = [[Str ''A1'', Str ''F1'', Str ''ES'', Str ''Alta''],
              [Str ''A1'', Str ''F2'', Str ''FR'', Str ''Baja'']]\<rparr>"

definition entradas_dates :: frame where
  "entradas_dates =
     \<lparr>columns = [''codigo'', fecha_entrada_caja, fecha_preparacion_caja, ''valor''],
      rows = [[Str ''A1'', Timestamp 2024 1 1, Timestamp 2024 1 2, Num 100],
              [Str ''Z9'', Timestamp 2024 1 1, Timestamp 2024 1 3, Num 200]]\<rparr>"

text \<open>
  The float division of two row counts, as far as it is used: the quotient of \<open>n\<close> by
  \<open>t\<close>, for \<open>n\<close> at most \<open>t\<close>, is off by at most the relative error of one rounding to a
  double.
\<close>

definition rounds_to_nearest :: "(nat \<Rightarrow> nat \<Rightarrow> real) \<Rightarrow> bool" where
  "rounds_to_nearest fdiv =
     (\<forall>n t. 0 < t \<and> n \<le> t \<longrightarrow> \<bar>fdiv n t - real n / real t\<bar> \<le> (real n / real t) / 2 ^ 53)"

text \<open>The sum of a row of proportions.\<close>

definition row_total :: "real option list \<Rightarrow> real" where
  "row_total row = sum_list (map (\<lambda>x. case x of None \<Rightarrow> 0 | Some v \<Rightarrow> v) row)"

text \<open>
  A joined table with its month column: two rows of January 2024 with qualities \<open>Alta\<close> and
  \<open>Baja\<close>, and a row of February whose code has no family.
\<close>

definition joined_sample :: frame where
  "joined_sample =
     \<lparr>columns = [''codigo'', fecha_entrada_caja, ''valor'', ''CODIGO'', ''FAMILIA'', ''ORIGEN'',
                 ''CALIDAD'', ''mes''],
      rows = [[Str ''A1'', Timestamp 2024 1 1, Num 100, Str ''A1'', Str ''F1'', Str ''ES'',
               Str ''Alta'', Str ''2024-01''],
              [Str ''A2'', Timestamp 2024 1 1, Num 200, Str ''A2'', Str ''F2'', Str ''FR'',
               Str ''Baja'', Str ''2024-01''],
              [Str ''Z9'', Timestamp 2024 2 1, Num 7, Null, Null, Null, Null, Str ''2024-02'']]\<rparr>"

text \<open>The join of these two tables, and the join with its month and year columns.\<close>

definition merged_dates :: frame where
  "merged_dates =
     \<lparr>columns = [''codigo'', fecha_entrada_caja, fecha_preparacion_caja, ''valor'',
                 ''CODIGO'', ''FAMILIA'', ''ORIGEN'', ''CALIDAD''],
      rows = [[Str ''A1'', Timestamp 2024 1 1, Timestamp 2024 1 2, Num 100,
               Str ''A1'', Str ''F1'', Str ''ES'', Str ''Alta''],
              [Str ''A1'', Timestamp 2024 1 1, Timestamp 2024 1 2, Num 100,
               Str ''A1'', Str ''F2'', Str ''FR'', Str ''Baja''],
              [Str ''Z9'', Timestamp 2024 1 1, Timestamp 2024 1 3, Num 200,
               Null, Null, Null, Null]]\<rparr>"

definition analysed_dates :: frame where
  "analysed_dates =
     \<lparr>columns = [''codigo'', fecha_entrada_caja, fecha_preparacion_caja, ''valor'',
                 ''CODIGO'', ''FAMILIA'', ''ORIGEN'', ''CALIDAD'', ''mes'', anio],
      rows = [[Str ''A1'', Timestamp 2024 1 1, Timestamp 2024 1 2, Num 100,
               Str ''A1'', Str ''F1'', Str ''ES'', Str ''Alta'', Str ''2024-01'', Num 2024],
              [Str ''A1'', Timestamp 2024 1 1, Timestamp 2024 1 2, Num 100,
               Str ''A1'', Str ''F2'', Str ''FR'', Str ''Baja'', Str ''2024-01'', Num 2024],
              [Str ''Z9'', Timestamp 2024 1 1, Timestamp 2024 1 3, Num 200,
               Null, Null, Null, Null, Str ''2024-01'', Num 2024]]\<rparr>"

text \<open>
  The sample workbook as \<open>load_excel\<close> returns it: the dates converted, the join, and
  the join with its month and year columns.
\<close>

definition entradas_loaded :: frame where
  "entradas_loaded =
     \<lparr>columns = [''codigo'', fecha_entrada_caja, fecha_preparacion_caja, ''valor''],
      rows = [[Str ''A1'', Timestamp 2024 1 1, Timestamp 2024 1 2, Num 100],
              [Str ''A2'', Timestamp 2024 1 1, Timestamp 2024 1 3, Num 200]]\<rparr>"

definition merged_sample :: frame where
  "merged_sample =
     \<lparr>columns = [''codigo'', fecha_entrada_caja, fecha_preparacion_caja, ''valor'',
                 ''CODIGO'', ''FAMILIA'', ''ORIGEN'', ''CALIDAD''],
      rows = [[Str ''A1'', Timestamp 2024 1 1, Timestamp 2024 1 2, Num 100,
               Str ''A1'', Str ''F1'', Str ''ES'', Str ''Alta''],
              [Str ''A2'', Timestamp 2024 1 1, Timestamp 2024 1 3, Num 200,
               Str ''A2'', Str ''F2'', Str ''FR'', Str ''Baja'']]\<rparr>"


text \<open>A disk that holds the sample workbook as the default file, before and after its first load.\<close>

definition only_default :: world where
  "only_default = \<lparr>files = [(default_file, sample_book)], uploads_writable = True, cached = []\<rparr>"

definition loaded_default :: world where
  "loaded_default =
     \<lparr>files = [(default_file, sample_book)], uploads_writable = True,
      cached = [(default_file,
                 ((Some entradas_loaded, Some familias_sample, Some merged_sample), []))]\<rparr>"

text \<open>The digits of the ASCII range only: no other character counts as a decimal digit.\<close>

definition ascii_only :: digit_table where
  "ascii_only = (\<lambda>ch. None)"








text \<open>
  The arithmetic on integers that doubles represent, as far as it is used: the sum of
  integers whose absolute values add up to at most \<open>2^53\<close> is their sum, the quotient of
  such an integer by a count is the exact quotient when that is an integer, and the
  conversion of such an integer to a double keeps it.
\<close>

definition exact_on_integers :: "numerics \<Rightarrow> bool" where
  "exact_on_integers num =
     ((\<forall>xs. list_all is_integer xs \<and> sum_list (map abs xs) \<le> 2 ^ 53
            \<longrightarrow> float_sum num xs = sum_list xs)
      \<and> (\<forall>x n. is_integer x \<and> \<bar>x\<bar> \<le> 2 ^ 53 \<and> 0 < n \<and> is_integer (x / real n)
            \<longrightarrow> float_div num x (real n) = x / real n)
      \<and> (\<forall>x. is_integer x \<and> \<bar>x\<bar> \<le> 2 ^ 53 \<longrightarrow> to_float num x = x))"



text \<open>
  Exact arithmetic, as an instance of the arithmetic of the library; the aggregation of a
  column that is not numeric raises in it.
\<close>

definition exact_numerics :: numerics where
  "exact_numerics =
     \<lparr>float_sum = sum_list, float_div = (\<lambda>x y. x / y), to_float = (\<lambda>x. x),
      other_mean = (\<lambda>column g. Inl (TypeError ''agg function failed [how->mean,dtype->object]'')),
      other_sum = (\<lambda>column g. Inl (TypeError ''agg function failed [how->sum,dtype->object]''))\<rparr>"


section \<open>Properties of the loader\<close>

subsection \<open>Columns and their positions\<close>

lemma index_of_None: "index_of x xs = None \<longleftrightarrow> x \<notin> set xs"
  by (induction xs) auto

lemma index_of_notin: "x \<notin> set xs \<Longrightarrow> index_of x xs = None"
  by (simp add: index_of_None)

lemma index_of_Some: "index_of x xs = Some i \<Longrightarrow> i < length xs \<and> xs ! i = x"
  by (induction xs arbitrary: i) (auto split: if_splits)

lemma column_index_missing:
  "c \<notin> set (columns df) \<Longrightarrow> column_index df c = Inl (KeyError c)"
  by (simp add: column_index_def index_of_notin)


subsection \<open>Date conversion\<close>

lemma convert_column_columns: "convert_column nd df c = Inr df' \<Longrightarrow> columns df' = columns df"
  by (auto simp: convert_column_def split: sum.splits)

lemma convert_columns_columns: "convert_columns nd df cs = Inr df' \<Longrightarrow> columns df' = columns df"
  by (induction cs arbitrary: df) (auto split: sum.splits dest: convert_column_columns)

lemma convert_column_missing: "c \<notin> set (columns df) \<Longrightarrow> \<exists>e. convert_column nd df c = Inl e"
  by (simp add: convert_column_def column_index_missing)

lemma convert_columns_missing:
  "c \<in> set cols \<Longrightarrow> c \<notin> set (columns df) \<Longrightarrow> \<exists>e. convert_columns nd df cols = Inl e"
proof (induction cols arbitrary: df)
  case Nil
  then show ?case by simp
next
  case (Cons a cols)
  show ?case
  proof (cases "convert_column nd df a")
    case (Inl e)
    then show ?thesis by simp
  next
    case (Inr df')
    then have cols': "columns df' = columns df" by (rule convert_column_columns)
    have "a \<noteq> c" using Inr convert_column_missing[of a df nd] Cons.prems(2) by auto
    then have "c \<in> set cols" using Cons.prems(1) by simp
    then have "\<exists>e. convert_columns nd df' cols = Inl e"
      using Cons.IH[of df'] Cons.prems(2) cols' by simp
    then show ?thesis using Inr by simp
  qed
qed












subsection \<open>The date format\<close>

























text \<open>
  A year written with two Arabic-Indic digits (the characters U+0662 and U+0664) is read when
  the table of digits knows them.
\<close>

lemma strptime_arabic_year:
  assumes "nd [CHR 0xD9, CHR 0xA2] = Some 2" "nd [CHR 0xD9, CHR 0xA4] = Some 4"
  shows "strptime nd (''01/01/'' @ [CHR 0xD9, CHR 0xA2, CHR 0xD9, CHR 0xA4])
           = Some (Timestamp 2024 1 1)"
  using assms
  by (simp add: strptime_def utf8_len_def in_range_def decimal_def is_digit_def digit_val_def
        days_in_month_def century_def)











lemma to_datetime_cell_number: "to_datetime_cell nd (Num x) = Inr new \<Longrightarrow> False"
  by simp






subsection \<open>The boundary of \<open>load_excel\<close>\<close>

lemma merge_missing:
  "l \<notin> set (columns left) \<or> r \<notin> set (columns right) \<Longrightarrow> \<exists>e. merge left right l r = Inl e"
  by (auto simp: merge_def column_index_missing split: sum.splits)

text \<open>
  Claim C4. Whatever exception \<open>e\<close> the \<open>try\<close> block raises, \<open>load_excel\<close> itself returns:
  it shows one error element with the text of \<open>e\<close> and hands back \<open>None\<close> for all three
  tables. A path without a file, a file that is no workbook, a workbook without one of the two
  sheets and a sheet without one of the columns that are used all raise in the \<open>try\<close> block
  (an unreadable date does too, see \<open>load_excel_date_format\<close>).
\<close>

theorem load_excel_catches_failure:
  "(load_excel_try nd fs file_path = Inl e \<longrightarrow>
      load_excel nd fs file_path =
        ((None, None, None), [St_error (''Error al cargar el archivo Excel: '' @ str_exc e)]))
   \<and> (fs file_path = None \<or> fs file_path = Some NotExcel
        \<longrightarrow> (\<exists>e. load_excel_try nd fs file_path = Inl e))
   \<and> (fs file_path = Some (Workbook sheets) \<and>
        (map_of sheets ''Entradas'' = None \<or> map_of sheets ''Familias'' = None)
        \<longrightarrow> (\<exists>e. load_excel_try nd fs file_path = Inl e))
   \<and> (fs file_path = Some (Workbook sheets) \<and> map_of sheets ''Entradas'' = Some entradas \<and>
        map_of sheets ''Familias'' = Some familias \<and>
        (fecha_entrada_caja \<notin> set (columns entradas)
         \<or> fecha_preparacion_caja \<notin> set (columns entradas)
         \<or> ''codigo'' \<notin> set (columns entradas) \<or> ''CODIGO'' \<notin> set (columns familias))
        \<longrightarrow> (\<exists>e. load_excel_try nd fs file_path = Inl e))"
proof (intro conjI impI)
  assume "load_excel_try nd fs file_path = Inl e"
  then show "load_excel nd fs file_path =
        ((None, None, None), [St_error (''Error al cargar el archivo Excel: '' @ str_exc e)])"
    by (simp add: load_excel_def)
next
  assume "fs file_path = None \<or> fs file_path = Some NotExcel"
  then show "\<exists>e. load_excel_try nd fs file_path = Inl e"
    by (auto simp: load_excel_try_def read_excel_def)
next
  assume "fs file_path = Some (Workbook sheets) \<and>
        (map_of sheets ''Entradas'' = None \<or> map_of sheets ''Familias'' = None)"
  then show "\<exists>e. load_excel_try nd fs file_path = Inl e"
    by (auto simp: load_excel_try_def read_excel_def split: option.splits)
next
  assume a: "fs file_path = Some (Workbook sheets) \<and> map_of sheets ''Entradas'' = Some entradas \<and>
        map_of sheets ''Familias'' = Some familias \<and>
        (fecha_entrada_caja \<notin> set (columns entradas)
         \<or> fecha_preparacion_caja \<notin> set (columns entradas)
         \<or> ''codigo'' \<notin> set (columns entradas) \<or> ''CODIGO'' \<notin> set (columns familias))"
  then have r: "read_excel fs file_path ''Entradas'' = Inr entradas"
               "read_excel fs file_path ''Familias'' = Inr familias"
    by (simp_all add: read_excel_def)
  show "\<exists>e. load_excel_try nd fs file_path = Inl e"
  proof (cases "convert_columns nd entradas date_columns")
    case (Inl e)
    then show ?thesis using r by (simp add: load_excel_try_def)
  next
    case (Inr df)
    have cols: "columns df = columns entradas" using Inr by (rule convert_columns_columns)
    have d: "fecha_entrada_caja \<in> set (columns entradas)
             \<and> fecha_preparacion_caja \<in> set (columns entradas)"
      using Inr convert_columns_missing[of fecha_entrada_caja date_columns entradas nd]
            convert_columns_missing[of fecha_preparacion_caja date_columns entradas nd]
      by (auto simp: date_columns_def)
    then have "''codigo'' \<notin> set (columns df) \<or> ''CODIGO'' \<notin> set (columns familias)"
      using a cols by auto
    then obtain e where "merge df familias ''codigo'' ''CODIGO'' = Inl e"
      using merge_missing by blast
    then show ?thesis using r Inr by (simp add: load_excel_try_def)
  qed
qed

theorem load_excel_catches_failure_witness:
  "load_excel ascii_only [default_file \<mapsto> NotExcel] default_file =
     ((None, None, None),
      [St_error ''Error al cargar el archivo Excel: File is not a zip file''])"
  using load_excel_catches_failure[of ascii_only "[default_file \<mapsto> NotExcel]" default_file
          "BadZipFile ''File is not a zip file''" "[]" undefined undefined]
  by (simp add: load_excel_try_def read_excel_def)

subsection \<open>The cache\<close>

text \<open>
  Claim C9. Two calls of the cached \<open>load_excel\<close> with the same path, one after the other,
  return the same triple of tables (and the same elements), and the second call leaves the
  cache as it found it. The second result does not depend on what is on disk at that time
  (\<open>fs'\<close> is arbitrary): the function body is not run again. On a path that was not cached
  the first call returns what \<open>load_excel\<close> computes.
\<close>

theorem load_excel_cached_twice:
  assumes "load_excel_cached nd c fs file_path = (r1, c1)"
      and "load_excel_cached nd c1 fs' file_path = (r2, c2)"
  shows "r2 = r1 \<and> c2 = c1 \<and> (map_of c file_path = None \<longrightarrow> r1 = load_excel nd fs file_path)"
  using assms by (auto simp: load_excel_cached_def Let_def split: option.splits)

theorem load_excel_cached_twice_witness:
  "fst (load_excel_cached ascii_only
          (snd (load_excel_cached ascii_only [] [default_file \<mapsto> sample_book] default_file))
          Map.empty default_file)
   = load_excel ascii_only [default_file \<mapsto> sample_book] default_file"
  using load_excel_cached_twice[of ascii_only "[]" "[default_file \<mapsto> sample_book]"
          default_file
          "fst (load_excel_cached ascii_only [] [default_file \<mapsto> sample_book] default_file)"
          "snd (load_excel_cached ascii_only [] [default_file \<mapsto> sample_book] default_file)"
          Map.empty
          "fst (load_excel_cached ascii_only
                  (snd (load_excel_cached ascii_only [] [default_file \<mapsto> sample_book]
                          default_file))
                  Map.empty default_file)"
          "snd (load_excel_cached ascii_only
                  (snd (load_excel_cached ascii_only [] [default_file \<mapsto> sample_book]
                          default_file))
                  Map.empty default_file)"]
  by simp

subsection \<open>The join\<close>

lemma merge_row_left:
  assumes "length l = n"
  shows "map (take n) (merge_row ki kj m rrows l)
         = replicate (max 1 (length (matches kj rrows (l ! ki)))) l"
proof (cases "matches kj rrows (l ! ki)")
  case Nil
  then show ?thesis using assms by (simp add: merge_row_def)
next
  case (Cons a as)
  have "map (take n) (map (\<lambda>r. l @ r) (a # as)) = map (\<lambda>r. l) (a # as)"
    using assms by simp
  also have "\<dots> = replicate (length (a # as)) l" by (simp add: map_replicate_const)
  finally show ?thesis using Cons by (simp add: merge_row_def)
qed

lemma merge_rows_left:
  assumes "\<forall>l\<in>set ls. length l = n"
  shows "map (take n) (concat (map (merge_row ki kj m rrows) ls))
         = concat (map (\<lambda>l. replicate (max 1 (length (matches kj rrows (l ! ki)))) l) ls)"
  using assms by (induction ls) (simp_all add: merge_row_left)

lemma merge_row_unmatched:
  "matches kj rrows (l ! ki) = [] \<Longrightarrow> merge_row ki kj m rrows l = [l @ replicate m Null]"
  by (simp add: merge_row_def)

lemma merge_row_matched:
  "r \<in> set rrows \<Longrightarrow> r ! kj = l ! ki \<Longrightarrow> l @ r \<in> set (merge_row ki kj m rrows l)"
proof -
  assume a: "r \<in> set rrows" "r ! kj = l ! ki"
  then have m: "r \<in> set (matches kj rrows (l ! ki))" by (simp add: matches_def)
  then obtain x xs where "matches kj rrows (l ! ki) = x # xs" by (cases "matches kj rrows (l ! ki)") auto
  then show ?thesis using m by (auto simp: merge_row_def)
qed

lemma concat_replicate_once:
  "\<forall>l\<in>set ls. f l = (1::nat) \<Longrightarrow> concat (map (\<lambda>l. replicate (f l) l) ls) = ls"
  by (induction ls) simp_all

text \<open>
  Claim C1. \<open>pd.merge(..., how='left')\<close> on \<open>codigo\<close> = \<open>CODIGO\<close>: cut down to the columns of
  \<open>Entradas\<close>, the joined table is the table \<open>Entradas\<close> in its order, every row repeated once
  per row of \<open>Familias\<close> with the same code and kept once when there is none. A row without
  a match appears filled up with empty cells in the columns that come from \<open>Familias\<close>; every
  pair of rows with equal codes appears joined, so a repeated \<open>CODIGO\<close> multiplies the row;
  and when no code matches more than once, the left part of the joined table is \<open>Entradas\<close>
  itself.
\<close>

theorem merge_left_outer_join:
  assumes "wf_frame left"
      and "merge left right ''codigo'' ''CODIGO'' = Inr joined"
  shows "\<exists>ki kj. column_index left ''codigo'' = Inr ki \<and> column_index right ''CODIGO'' = Inr kj
     \<and> map (take (length (columns left))) (rows joined)
         = concat (map (\<lambda>l. replicate (max 1 (length (matches kj (rows right) (l ! ki)))) l)
                       (rows left))
     \<and> (\<forall>l\<in>set (rows left). matches kj (rows right) (l ! ki) = [] \<longrightarrow>
           l @ replicate (length (columns right)) Null \<in> set (rows joined))
     \<and> (\<forall>l\<in>set (rows left). \<forall>r\<in>set (rows right). r ! kj = l ! ki \<longrightarrow>
           l @ r \<in> set (rows joined))
     \<and> ((\<forall>l\<in>set (rows left). length (matches kj (rows right) (l ! ki)) \<le> 1) \<longrightarrow>
           map (take (length (columns left))) (rows joined) = rows left)
     \<and> drop (length (columns left)) (columns joined)
         = map (suffixed ''_y'' (columns left)) (columns right)"
proof -
  obtain ki kj where ki: "column_index left ''codigo'' = Inr ki"
    and kj: "column_index right ''CODIGO'' = Inr kj"
    and j: "joined = \<lparr>columns = map (suffixed ''_x'' (columns right)) (columns left)
                               @ map (suffixed ''_y'' (columns left)) (columns right),
                    rows = concat (map (merge_row ki kj (length (columns right)) (rows right))
                                       (rows left))\<rparr>"
    using assms(2) by (auto simp: merge_def split: sum.splits)
  have wf: "\<forall>l\<in>set (rows left). length l = length (columns left)"
    using assms(1) by (simp add: wf_frame_def list_all_iff)
  have proj: "map (take (length (columns left))) (rows joined)
         = concat (map (\<lambda>l. replicate (max 1 (length (matches kj (rows right) (l ! ki)))) l)
                       (rows left))"
    using merge_rows_left[OF wf] j by simp
  have un: "\<forall>l\<in>set (rows left). matches kj (rows right) (l ! ki) = [] \<longrightarrow>
           l @ replicate (length (columns right)) Null \<in> set (rows joined)"
  proof (intro ballI impI)
    fix l assume l: "l \<in> set (rows left)" "matches kj (rows right) (l ! ki) = []"
    have "l @ replicate (length (columns right)) Null
            \<in> set (merge_row ki kj (length (columns right)) (rows right) l)"
      using l(2) by (simp add: merge_row_unmatched)
    then show "l @ replicate (length (columns right)) Null \<in> set (rows joined)"
      using l(1) j by auto
  qed
  have fan: "\<forall>l\<in>set (rows left). \<forall>r\<in>set (rows right). r ! kj = l ! ki \<longrightarrow>
           l @ r \<in> set (rows joined)"
  proof (intro ballI impI)
    fix l r assume l: "l \<in> set (rows left)" "r \<in> set (rows right)" "r ! kj = l ! ki"
    have "l @ r \<in> set (merge_row ki kj (length (columns right)) (rows right) l)"
      using l(2,3) by (rule merge_row_matched)
    then show "l @ r \<in> set (rows joined)"
      using l(1) j by auto
  qed
  have once: "(\<forall>l\<in>set (rows left). length (matches kj (rows right) (l ! ki)) \<le> 1) \<longrightarrow>
           map (take (length (columns left))) (rows joined) = rows left"
  proof
    assume "\<forall>l\<in>set (rows left). length (matches kj (rows right) (l ! ki)) \<le> 1"
    then have "\<forall>l\<in>set (rows left). max 1 (length (matches kj (rows right) (l ! ki))) = 1"
      by (auto simp: max_def)
    then show "map (take (length (columns left))) (rows joined) = rows left"
      using proj concat_replicate_once[of "rows left" "\<lambda>l. max 1 (length (matches kj (rows right) (l ! ki)))"]
      by simp
  qed
  have cols: "drop (length (columns left)) (columns joined)
         = map (suffixed ''_y'' (columns left)) (columns right)"
    using j by simp
  show ?thesis using ki kj proj un fan once cols by blast
qed

theorem merge_left_outer_join_witness:
  "map (take 4) (rows (projr (merge entradas_dates familias_dup ''codigo'' ''CODIGO'')))
     = [[Str ''A1'', Timestamp 2024 1 1, Timestamp 2024 1 2, Num 100],
        [Str ''A1'', Timestamp 2024 1 1, Timestamp 2024 1 2, Num 100],
        [Str ''Z9'', Timestamp 2024 1 1, Timestamp 2024 1 3, Num 200]]
   \<and> [Str ''Z9'', Timestamp 2024 1 1, Timestamp 2024 1 3, Num 200, Null, Null, Null, Null]
       \<in> set (rows (projr (merge entradas_dates familias_dup ''codigo'' ''CODIGO'')))"
  using merge_left_outer_join[of entradas_dates familias_dup
          "projr (merge entradas_dates familias_dup ''codigo'' ''CODIGO'')"]
  by (simp add: wf_frame_def entradas_dates_def familias_dup_def merge_def column_index_def
        matches_def merge_row_def fecha_entrada_caja_def fecha_preparacion_caja_def)

section \<open>Properties of the aggregator\<close>

subsection \<open>Sorting keeps the keys\<close>

lemma set_insort_by: "set (insort_by le x xs) = insert x (set xs)"
  by (induction xs) auto

lemma set_sort_by: "set (sort_by le xs) = set xs"
  by (induction xs) (simp_all add: sort_by_def set_insort_by)

lemma distinct_insort_by: "distinct (insort_by le x xs) \<longleftrightarrow> x \<notin> set xs \<and> distinct xs"
  by (induction xs) (auto simp: set_insort_by)

lemma distinct_sort_by: "distinct xs \<Longrightarrow> distinct (sort_by le xs)"
proof (induction xs)
  case Nil
  then show ?case by (simp add: sort_by_def)
next
  case (Cons a xs)
  have "sort_by le (a # xs) = insort_by le a (sort_by le xs)" by (simp add: sort_by_def)
  then show ?case using Cons by (simp add: distinct_insort_by set_sort_by)
qed

lemma set_uniques: "set (uniques le xs) = set xs"
  by (simp add: uniques_def set_sort_by)

lemma distinct_uniques: "distinct (uniques le xs)"
  by (simp add: uniques_def distinct_sort_by)
subsection \<open>The pivot of counts\<close>

lemma lookup_counts:
  "(case map_of (map (\<lambda>k. (k, count_list ks k)) xs) q of None \<Rightarrow> 0 | Some n \<Rightarrow> n)
     = (if q \<in> set xs then count_list ks q else 0)"
  by (induction xs) auto

lemma pivot_cells:
  "unstack 0 (groupby_size rs i j) =
     \<lparr>index = uniques cell_le (map fst (uniques pair_le (group_keys rs i j))),
      labels = uniques cell_le (map snd (uniques pair_le (group_keys rs i j))),
      cells = map (\<lambda>a. map (\<lambda>b. count_list (group_keys rs i j) (a, b))
                          (uniques cell_le (map snd (uniques pair_le (group_keys rs i j)))))
                  (uniques cell_le (map fst (uniques pair_le (group_keys rs i j))))\<rparr>"
proof -
  have "\<And>q. (if q \<in> set (uniques pair_le (group_keys rs i j)) then count_list (group_keys rs i j) q else 0)
        = count_list (group_keys rs i j) q"
    by (simp add: set_uniques count_list_0_iff)
  then show ?thesis
    by (simp add: unstack_def groupby_size_def Let_def lookup_counts comp_def)
qed

lemma sum_indicator:
  "distinct lbs \<Longrightarrow> sum_list (map (\<lambda>b. if b = x then 1 else 0) lbs) = (if x \<in> set lbs then 1::nat else 0)"
  by (induction lbs) auto

lemma row_count:
  assumes "distinct lbs" "snd ` set ks \<subseteq> set lbs"
  shows "sum_list (map (\<lambda>b. count_list ks (a, b)) lbs) = length (filter (\<lambda>k. fst k = a) ks)"
  using assms(2)
proof (induction ks)
  case Nil
  then show ?case by simp
next
  case (Cons k ks)
  have "sum_list (map (\<lambda>b. count_list (k # ks) (a, b)) lbs)
        = sum_list (map (\<lambda>b. (if k = (a, b) then 1 else 0) + count_list ks (a, b)) lbs)"
    by (intro arg_cong[where f=sum_list] map_cong) auto
  also have "\<dots> = sum_list (map (\<lambda>b. if k = (a, b) then 1 else 0) lbs)
                   + sum_list (map (\<lambda>b. count_list ks (a, b)) lbs)"
    by (simp add: sum_list_addf)
  also have "sum_list (map (\<lambda>b. if k = (a, b) then 1 else 0) lbs)
             = (if fst k = a then 1 else (0::nat))"
  proof (cases "fst k = a")
    case True
    then have "(\<lambda>b. if k = (a, b) then 1 else (0::nat)) = (\<lambda>b. if b = snd k then 1 else 0)"
      by (auto simp: fun_eq_iff prod_eq_iff)
    then show ?thesis using True sum_indicator[OF assms(1), of "snd k"] Cons.prems by auto
  next
    case False
    then have "(\<lambda>b. if k = (a, b) then 1 else (0::nat)) = (\<lambda>b. 0)"
      by (auto simp: fun_eq_iff)
    then show ?thesis using False by simp
  qed
  finally show ?case using Cons by simp
qed

lemma float_sum_bound:
  assumes "rounds_to_nearest fdiv" "0 < t" "\<forall>n\<in>set row. n \<le> t"
  shows "\<bar>sum_list (map (\<lambda>n. fdiv n t) row) - real (sum_list row) / real t\<bar>
         \<le> (real (sum_list row) / real t) / 2 ^ 53"
  using assms(3)
proof (induction row)
  case Nil
  then show ?case by simp
next
  case (Cons a row)
  have a: "\<bar>fdiv a t - real a / real t\<bar> \<le> (real a / real t) / 2 ^ 53"
    using assms(1,2) Cons.prems by (simp add: rounds_to_nearest_def)
  have ih: "\<bar>sum_list (map (\<lambda>n. fdiv n t) row) - real (sum_list row) / real t\<bar>
         \<le> (real (sum_list row) / real t) / 2 ^ 53"
    using Cons by simp
  have "sum_list (map (\<lambda>n. fdiv n t) (a # row)) - real (sum_list (a # row)) / real t
        = (fdiv a t - real a / real t)
          + (sum_list (map (\<lambda>n. fdiv n t) row) - real (sum_list row) / real t)"
    by (simp add: add_divide_distrib)
  moreover have "(real (sum_list (a # row)) / real t) / 2 ^ 53
        = (real a / real t) / 2 ^ 53 + (real (sum_list row) / real t) / 2 ^ 53"
    by (simp add: add_divide_distrib)
  ultimately show ?case using a ih by linarith
qed

lemma float_row_bound:
  assumes "rounds_to_nearest fdiv" "0 < sum_list row"
  shows "\<bar>sum_list (map (\<lambda>n. fdiv n (sum_list row)) row) - 1\<bar> \<le> 1 / 10 ^ 9"
proof -
  define t where "t = sum_list row"
  have one: "real t / real t = 1" using assms(2) by (simp add: t_def del: sum_list_eq_0_iff)
  have "\<forall>n\<in>set row. n \<le> t" by (simp add: t_def member_le_sum_list)
  then have "\<bar>sum_list (map (\<lambda>n. fdiv n t) row) - real (sum_list row) / real t\<bar>
         \<le> (real (sum_list row) / real t) / 2 ^ 53"
    using float_sum_bound[OF assms(1), of t row] assms(2) by (simp add: t_def)
  then have "\<bar>sum_list (map (\<lambda>n. fdiv n t) row) - real t / real t\<bar> \<le> (real t / real t) / 2 ^ 53"
    by (simp only: t_def)
  then have b: "\<bar>sum_list (map (\<lambda>n. fdiv n t) row) - 1\<bar> \<le> 1 / 2 ^ 53"
    by (simp only: one)
  have "(1::real) / 2 ^ 53 \<le> 1 / 10 ^ 9" by simp
  then have "\<bar>sum_list (map (\<lambda>n. fdiv n t) row) - 1\<bar> \<le> 1 / 10 ^ 9"
    using b by linarith
  then show ?thesis by (simp only: t_def)
qed

lemma row_total_div:
  assumes "0 < (t::nat)"
  shows "row_total (map (\<lambda>n. if t = 0 then None else Some (fdiv n t)) row)
         = sum_list (map (\<lambda>n. fdiv n t) row)"
  using assms by (simp add: row_total_def comp_def)

lemma group_keys_mem:
  "q \<in> set (group_keys rs i j) \<longleftrightarrow>
     (\<exists>r\<in>set rs. q = (r ! i, r ! j)) \<and> fst q \<noteq> Null \<and> snd q \<noteq> Null"
  by (auto simp: group_keys_def)

lemma quality_by_Inr:
  assumes "quality_by fdiv key df = Inr p"
  shows "\<exists>i j. column_index df key = Inr i \<and> column_index df ''CALIDAD'' = Inr j
           \<and> p = div_rows fdiv (unstack 0 (groupby_size (rows df) i j))"
  using assms by (auto simp: quality_by_def split: sum.splits)
text \<open>
  Claim C2. In each of the three proportion modes (\<open>quality_by\<close> with the key \<open>mes\<close>,
  \<open>ORIGEN\<close> or \<open>FAMILIA\<close>), when the float division rounds to nearest, every row of the
  pivot holds no \<open>NaN\<close> and sums to 1 within \<open>1e-9\<close>; and a row is there only for a key
  that at least one counted row of the table carries, so a group without rows is not in
  the output.
\<close>

theorem proportion_rows_sum_to_one:
  assumes "rounds_to_nearest fdiv"
      and "quality_by fdiv key df = Inr p"
  shows "\<exists>i j. column_index df key = Inr i \<and> column_index df ''CALIDAD'' = Inr j
     \<and> length (cells p) = length (index p)
     \<and> (\<forall>k<length (index p).
           None \<notin> set (cells p ! k)
         \<and> \<bar>row_total (cells p ! k) - 1\<bar> \<le> 1 / 10 ^ 9
         \<and> (\<exists>r\<in>set (rows df). r ! i = index p ! k \<and> r ! i \<noteq> Null \<and> r ! j \<noteq> Null))"
proof -
  obtain i j where ci: "column_index df key = Inr i" and cj: "column_index df ''CALIDAD'' = Inr j"
    and p: "p = div_rows fdiv (unstack 0 (groupby_size (rows df) i j))"
    using quality_by_Inr[OF assms(2)] by blast
  define ks where "ks = group_keys (rows df) i j"
  define idx where "idx = uniques cell_le (map fst (uniques pair_le ks))"
  define lbs where "lbs = uniques cell_le (map snd (uniques pair_le ks))"
  define counts where "counts = (\<lambda>a. map (\<lambda>b. count_list ks (a, b)) lbs)"
  have ip: "index p = idx"
    and cp: "cells p = map (\<lambda>row. map (\<lambda>n. if sum_list row = 0 then None
                                   else Some (fdiv n (sum_list row))) row) (map counts idx)"
    using p by (simp_all add: pivot_cells div_rows_def ks_def idx_def lbs_def counts_def)
  have len: "length (cells p) = length (index p)" using ip cp by simp
  have dl: "distinct lbs" by (simp add: lbs_def distinct_uniques)
  have sl: "snd ` set ks \<subseteq> set lbs" by (simp add: lbs_def set_uniques)
  have rows_ok: "\<forall>k<length (index p).
           None \<notin> set (cells p ! k)
         \<and> \<bar>row_total (cells p ! k) - 1\<bar> \<le> 1 / 10 ^ 9
         \<and> (\<exists>r\<in>set (rows df). r ! i = index p ! k \<and> r ! i \<noteq> Null \<and> r ! j \<noteq> Null)"
  proof (intro allI impI)
    fix k assume k: "k < length (index p)"
    then have kk: "k < length idx" using ip by simp
    then have "idx ! k \<in> set idx" by simp
    then have "idx ! k \<in> fst ` set ks" by (simp add: idx_def set_uniques)
    then obtain q where q: "q \<in> set ks" "fst q = idx ! k" by auto
    then obtain r where r: "r \<in> set (rows df)" "q = (r ! i, r ! j)" "fst q \<noteq> Null" "snd q \<noteq> Null"
      using group_keys_mem[of q "rows df" i j] by (auto simp: ks_def)
    have "sum_list (counts (idx ! k)) = length (filter (\<lambda>q. fst q = idx ! k) ks)"
      unfolding counts_def using row_count[OF dl sl] by simp
    moreover have "0 < length (filter (\<lambda>q. fst q = idx ! k) ks)"
      using q by (auto simp: filter_empty_conv)
    ultimately have pos: "0 < sum_list (counts (idx ! k))" by simp
    have ck: "cells p ! k = map (\<lambda>n. if sum_list (counts (idx ! k)) = 0 then None
                                   else Some (fdiv n (sum_list (counts (idx ! k))))) (counts (idx ! k))"
      using cp kk by simp
    have ck': "cells p ! k = map (\<lambda>n. Some (fdiv n (sum_list (counts (idx ! k))))) (counts (idx ! k))"
      using ck pos by (simp del: sum_list_eq_0_iff)
    have "None \<notin> set (cells p ! k)" unfolding ck' by auto
    moreover have "\<bar>row_total (cells p ! k) - 1\<bar> \<le> 1 / 10 ^ 9"
      using ck row_total_div[OF pos, of fdiv "counts (idx ! k)"] float_row_bound[OF assms(1) pos]
      by (simp del: sum_list_eq_0_iff)
    moreover have "\<exists>r\<in>set (rows df). r ! i = index p ! k \<and> r ! i \<noteq> Null \<and> r ! j \<noteq> Null"
      using r q ip by auto
    ultimately show "None \<notin> set (cells p ! k)
         \<and> \<bar>row_total (cells p ! k) - 1\<bar> \<le> 1 / 10 ^ 9
         \<and> (\<exists>r\<in>set (rows df). r ! i = index p ! k \<and> r ! i \<noteq> Null \<and> r ! j \<noteq> Null)"
      by blast
  qed
  show ?thesis using ci cj len rows_ok by blast
qed

lemma quality_by_month_sample:
  "quality_by exact_div ''mes'' joined_sample =
     Inr \<lparr>index = [Str ''2024-01''], labels = [Str ''Alta'', Str ''Baja''],
          cells = [[Some (1 / 2), Some (1 / 2)]]\<rparr>"
  by (simp add: quality_by_def joined_sample_def column_index_def fecha_entrada_caja_def
       groupby_size_def group_keys_def unstack_def uniques_def sort_by_def pair_le_def
       div_rows_def exact_div_def Let_def)

theorem proportion_rows_sum_to_one_witness:
  "rounds_to_nearest exact_div
   \<and> \<bar>row_total (cells \<lparr>index = [Str ''2024-01''], labels = [Str ''Alta'', Str ''Baja''],
          cells = [[Some (1 / 2), Some (1 / 2 :: real)]]\<rparr> ! 0) - 1\<bar> \<le> 1 / 10 ^ 9"
proof -
  have r: "rounds_to_nearest exact_div" by (simp add: rounds_to_nearest_def exact_div_def)
  show ?thesis
    using r proportion_rows_sum_to_one[OF r quality_by_month_sample] by auto
qed

subsection \<open>The groups of a proportion mode\<close>






subsection \<open>Rows without a family\<close>

lemma group_keys_filter:
  "group_keys (filter (\<lambda>r. r ! j \<noteq> Null) rs) i j = group_keys rs i j"
  by (induction rs) (auto simp: group_keys_def)

lemma quality_by_filter:
  assumes "column_index df ''CALIDAD'' = Inr j"
  shows "quality_by fdiv key (df\<lparr>rows := filter (\<lambda>r. r ! j \<noteq> Null) (rows df)\<rparr>)
           = quality_by fdiv key df"
proof -
  have c: "\<And>c. column_index (df\<lparr>rows := filter (\<lambda>r. r ! j \<noteq> Null) (rows df)\<rparr>) c
              = column_index df c"
    by (simp add: column_index_def)
  show ?thesis
  proof (cases "column_index df key")
    case (Inl e)
    then show ?thesis by (simp add: quality_by_def c)
  next
    case (Inr i)
    then show ?thesis using assms
      by (simp add: quality_by_def c groupby_size_def group_keys_filter)
  qed
qed

lemma index_of_append_notin:
  "x \<notin> set xs \<Longrightarrow>
     index_of x (xs @ ys) = (case index_of x ys of None \<Rightarrow> None | Some k \<Rightarrow> Some (length xs + k))"
  by (induction xs) (auto split: option.splits)

lemma index_of_append_in: "x \<in> set xs \<Longrightarrow> index_of x (xs @ ys) = index_of x xs"
  by (induction xs) auto

lemma index_of_in: "x \<in> set xs \<Longrightarrow> \<exists>i. index_of x xs = Some i"
  using index_of_None[of x xs] by (cases "index_of x xs") auto

lemma map_cells_length: "map_cells f cs = Inr ts \<Longrightarrow> length ts = length cs"
  by (induction cs arbitrary: ts) (auto split: sum.splits)

lemma set_column_length:
  "length vs = length (rows df) \<Longrightarrow> length (rows (set_column df name vs)) = length (rows df)"
  by (simp add: set_column_def split: option.splits)

lemma set_column_index:
  "c \<in> set (columns df) \<Longrightarrow> index_of c (columns (set_column df name vs)) = index_of c (columns df)"
  by (simp add: set_column_def index_of_append_in split: option.splits)

lemma set_column_cell:
  assumes "length vs = length (rows df)" "k < length (rows df)"
      and "index_of c (columns df) = Some j" "c \<noteq> name" "j < length (rows df ! k)"
  shows "rows (set_column df name vs) ! k ! j = rows df ! k ! j
         \<and> j < length (rows (set_column df name vs) ! k)"
proof (cases "index_of name (columns df)")
  case None
  then show ?thesis using assms by (simp add: set_column_def nth_append)
next
  case (Some i)
  have "i \<noteq> j" using index_of_Some[OF Some] index_of_Some[OF assms(3)] assms(4) by auto
  then show ?thesis using Some assms by (simp add: set_column_def)
qed

lemma mes_anio_distinct: "''mes'' \<noteq> anio" "anio \<noteq> fecha_entrada_caja" "''mes'' \<noteq> fecha_entrada_caja"
  by (simp_all add: anio_def fecha_entrada_caja_def)

lemma add_month_columns_cell:
  assumes "add_month_columns joined = Inr df"
      and "index_of c (columns joined) = Some j" "c \<noteq> ''mes''" "c \<noteq> anio"
      and "k < length (rows joined)" "j < length (rows joined ! k)"
  shows "index_of c (columns df) = Some j \<and> length (rows df) = length (rows joined)
         \<and> rows df ! k ! j = rows joined ! k ! j"
proof -
  obtain i ms j' ys where i: "column_index joined fecha_entrada_caja = Inr i"
    and ms: "map_cells strftime_Ym (map (\<lambda>r. r ! i) (rows joined)) = Inr ms"
    and j': "column_index (set_column joined ''mes'' ms) fecha_entrada_caja = Inr j'"
    and ys: "map_cells dt_year (map (\<lambda>r. r ! j') (rows (set_column joined ''mes'' ms))) = Inr ys"
    and df: "df = set_column (set_column joined ''mes'' ms) anio ys"
    using assms(1) by (auto simp: add_month_columns_def Let_def split: sum.splits)
  define df1 where "df1 = set_column joined ''mes'' ms"
  have lms: "length ms = length (rows joined)" using map_cells_length[OF ms] by simp
  have l1: "length (rows df1) = length (rows joined)"
    unfolding df1_def using lms by (rule set_column_length)
  have lys: "length ys = length (rows df1)" using map_cells_length[OF ys] by (simp add: df1_def)
  have cin: "c \<in> set (columns joined)" using index_of_Some[OF assms(2)] by auto
  have c1: "index_of c (columns df1) = Some j"
    unfolding df1_def using set_column_index[OF cin] assms(2) by simp
  have cin1: "c \<in> set (columns df1)" using index_of_Some[OF c1] by auto
  have cell1: "rows df1 ! k ! j = rows joined ! k ! j \<and> j < length (rows df1 ! k)"
    unfolding df1_def using set_column_cell[OF lms assms(5) assms(2) assms(3) assms(6)] .
  have k1: "k < length (rows df1)" using l1 assms(5) by simp
  have cell2: "rows (set_column df1 anio ys) ! k ! j = rows df1 ! k ! j"
    using set_column_cell[OF lys k1 c1 assms(4)] cell1 by simp
  have "index_of c (columns df) = Some j"
    using df set_column_index[OF cin1, of anio ys] c1 by (simp add: df1_def)
  moreover have "length (rows df) = length (rows joined)"
    using df set_column_length[OF lys] l1 by (simp add: df1_def)
  moreover have "rows df ! k ! j = rows joined ! k ! j"
    using df cell2 cell1 by (simp add: df1_def)
  ultimately show ?thesis by blast
qed

lemma calidad_not_suffixed: "''CALIDAD'' \<notin> set cs \<Longrightarrow> ''CALIDAD'' \<notin> set (map (suffixed ''_x'' others) cs)"
proof
  assume a: "''CALIDAD'' \<notin> set cs" "''CALIDAD'' \<in> set (map (suffixed ''_x'' others) cs)"
  then obtain c where c: "c \<in> set cs" "suffixed ''_x'' others c = ''CALIDAD''" by auto
  then have "c @ ''_x'' = ''CALIDAD''" using a(1) by (auto simp: suffixed_def split: if_splits)
  then have "last (c @ ''_x'') = last ''CALIDAD''" by simp
  then show False by simp
qed

lemma merge_columns:
  "merge left right lk rk = Inr joined \<Longrightarrow>
     columns joined = map (suffixed ''_x'' (columns right)) (columns left)
                      @ map (suffixed ''_y'' (columns left)) (columns right)"
  by (auto simp: merge_def split: sum.splits)

lemma suffixed_kept:
  assumes "c \<in> set cs" "c \<notin> set others"
  shows "c \<in> set (map (suffixed sfx others) cs)"
proof -
  have "suffixed sfx others c = c" using assms(2) by (simp add: suffixed_def)
  then have "c \<in> suffixed sfx others ` set cs" using assms(1) by (metis imageI)
  then show ?thesis by simp
qed

lemma merge_right_index:
  assumes "merge left right lk rk = Inr joined"
      and "c \<in> set (columns right)" "c \<notin> set (columns left)"
      and "c \<notin> set (map (suffixed ''_x'' (columns right)) (columns left))"
  shows "\<exists>j'. index_of c (columns joined) = Some (length (columns left) + j')
             \<and> j' < length (columns right)"
proof -
  define ls where "ls = map (suffixed ''_x'' (columns right)) (columns left)"
  define rs where "rs = map (suffixed ''_y'' (columns left)) (columns right)"
  have cols: "columns joined = ls @ rs"
    using merge_columns[OF assms(1)] by (simp only: ls_def rs_def)
  have "c \<in> set rs"
    unfolding rs_def using assms(2,3) by (rule suffixed_kept)
  then obtain j' where j': "index_of c rs = Some j'"
    using index_of_in[of c rs] by auto
  have lt: "j' < length (columns right)" using index_of_Some[OF j'] by (simp add: rs_def)
  have nl: "c \<notin> set ls"
    unfolding ls_def using assms(4) .
  have "index_of c (ls @ rs) = Some (length ls + j')"
    using index_of_append_notin[OF nl, of rs] j' by (simp only: option.case)
  then have "index_of c (columns joined) = Some (length (columns left) + j')"
    by (simp add: cols ls_def)
  then show ?thesis using lt by blast
qed

text \<open>
  Claim C6. Take the joined table and add the month columns. When \<open>CALIDAD\<close> is a column
  of \<open>Familias\<close> only, the row that the join builds for an entry without a family (the
  entry filled up with empty cells) has an empty \<open>CALIDAD\<close>; every proportion mode gives
  the same result with and without the rows of empty \<open>CALIDAD\<close>, of which this row is
  one; and the row is a record of the CSV export.
\<close>

theorem unmatched_row_excluded_but_exported:
  assumes "merge left right ''codigo'' ''CODIGO'' = Inr joined"
      and "add_month_columns joined = Inr df"
      and "''CALIDAD'' \<in> set (columns right)" "''CALIDAD'' \<notin> set (columns left)"
      and "k < length (rows joined)"
      and "rows joined ! k = l @ replicate (length (columns right)) Null"
      and "length l = length (columns left)"
  shows "\<exists>j. column_index df ''CALIDAD'' = Inr j
     \<and> k < length (rows df) \<and> rows df ! k ! j = Null
     \<and> quality_by fdiv key (df\<lparr>rows := filter (\<lambda>r. r ! j \<noteq> Null) (rows df)\<rparr>)
         = quality_by fdiv key df
     \<and> rows df ! k \<notin> set (filter (\<lambda>r. r ! j \<noteq> Null) (rows df))
     \<and> rows df ! k \<in> set (csv_records (to_csv df))"
proof -
  define c where "c = ''CALIDAD''"
  have cr: "c \<in> set (columns right)" unfolding c_def by (rule assms(3))
  have cl: "c \<notin> set (columns left)" unfolding c_def by (rule assms(4))
  have cx: "c \<notin> set (map (suffixed ''_x'' (columns right)) (columns left))"
    unfolding c_def using assms(4) by (rule calidad_not_suffixed)
  have ne: "c \<noteq> ''mes''" "c \<noteq> anio" by (simp_all add: c_def anio_def)
  obtain j' where j: "index_of c (columns joined) = Some (length (columns left) + j')"
    and j'lt: "j' < length (columns right)"
    using merge_right_index[OF assms(1) cr cl cx] by blast
  define j where "j = length (columns left) + j'"
  have jlen: "j < length (rows joined ! k)" using assms(6,7) j'lt by (simp add: j_def)
  have null: "rows joined ! k ! j = Null" using assms(6,7) j'lt by (simp add: j_def nth_append)
  have jj: "index_of c (columns joined) = Some j" using j by (simp only: j_def)
  have m: "index_of c (columns df) = Some j \<and> length (rows df) = length (rows joined)
         \<and> rows df ! k ! j = rows joined ! k ! j"
    using assms(2) jj ne assms(5) jlen by (rule add_month_columns_cell)
  then have ci: "column_index df c = Inr j" by (simp add: column_index_def)
  have kdf: "k < length (rows df)" using m assms(5) by simp
  have cell: "rows df ! k ! j = Null" using m null by simp
  have "rows df ! k \<in> set (rows df)" using kdf by simp
  then have csv: "rows df ! k \<in> set (csv_records (to_csv df))" by (simp add: to_csv_def)
  have out: "rows df ! k \<notin> set (filter (\<lambda>r. r ! j \<noteq> Null) (rows df))" using cell by simp
  have same: "quality_by fdiv key (df\<lparr>rows := filter (\<lambda>r. r ! j \<noteq> Null) (rows df)\<rparr>)
         = quality_by fdiv key df"
    using ci unfolding c_def by (rule quality_by_filter)
  have "\<exists>j. column_index df c = Inr j
     \<and> k < length (rows df) \<and> rows df ! k ! j = Null
     \<and> quality_by fdiv key (df\<lparr>rows := filter (\<lambda>r. r ! j \<noteq> Null) (rows df)\<rparr>)
         = quality_by fdiv key df
     \<and> rows df ! k \<notin> set (filter (\<lambda>r. r ! j \<noteq> Null) (rows df))
     \<and> rows df ! k \<in> set (csv_records (to_csv df))"
    using ci kdf cell same out csv by (intro exI[of _ j] conjI)
  then show ?thesis unfolding c_def .
qed

lemma merge_dates: "merge entradas_dates familias_dup ''codigo'' ''CODIGO'' = Inr merged_dates"
  by (simp add: entradas_dates_def familias_dup_def merged_dates_def merge_def column_index_def
        matches_def merge_row_def suffixed_def fecha_entrada_caja_def fecha_preparacion_caja_def)

lemma analyse_dates: "add_month_columns merged_dates = Inr analysed_dates"
  by (simp add: merged_dates_def analysed_dates_def add_month_columns_def column_index_def
        set_column_def anio_def fecha_entrada_caja_def fecha_preparacion_caja_def
        pad2_def pad4_def digit_char_def Let_def)

theorem unmatched_row_excluded_but_exported_witness:
  "rows analysed_dates ! 2 ! 7 = Null
   \<and> rows analysed_dates ! 2 \<notin> set (filter (\<lambda>r. r ! 7 \<noteq> Null) (rows analysed_dates))
   \<and> rows analysed_dates ! 2 \<in> set (csv_records (to_csv analysed_dates))"
proof -
  have c: "column_index analysed_dates ''CALIDAD'' = Inr 7"
    by (simp add: analysed_dates_def column_index_def fecha_entrada_caja_def
          fecha_preparacion_caja_def)
  have "\<exists>j. column_index analysed_dates ''CALIDAD'' = Inr j
     \<and> 2 < length (rows analysed_dates) \<and> rows analysed_dates ! 2 ! j = Null
     \<and> quality_by exact_div ''mes''
          (analysed_dates\<lparr>rows := filter (\<lambda>r. r ! j \<noteq> Null) (rows analysed_dates)\<rparr>)
         = quality_by exact_div ''mes'' analysed_dates
     \<and> rows analysed_dates ! 2 \<notin> set (filter (\<lambda>r. r ! j \<noteq> Null) (rows analysed_dates))
     \<and> rows analysed_dates ! 2 \<in> set (csv_records (to_csv analysed_dates))"
    by (rule unmatched_row_excluded_but_exported[OF merge_dates analyse_dates,
              of 2 "[Str ''Z9'', Timestamp 2024 1 1, Timestamp 2024 1 3, Num 200]"])
       (simp_all add: familias_dup_def entradas_dates_def merged_dates_def
          fecha_entrada_caja_def fecha_preparacion_caja_def)
  then show ?thesis using c by auto
qed

subsection \<open>The sample workbook, step by step\<close>

lemma convert_sample: "convert_columns nd entradas_sample date_columns = Inr entradas_loaded"
  by (simp add: entradas_sample_def entradas_loaded_def date_columns_def convert_column_def
        column_index_def fecha_entrada_caja_def fecha_preparacion_caja_def strptime_def
        utf8_len_def in_range_def decimal_def century_def
        is_digit_def digit_val_def days_in_month_def is_leap_def)

lemma merge_sample: "merge entradas_loaded familias_sample ''codigo'' ''CODIGO'' = Inr merged_sample"
  by (simp add: entradas_loaded_def familias_sample_def merged_sample_def merge_def
        column_index_def matches_def merge_row_def suffixed_def fecha_entrada_caja_def
        fecha_preparacion_caja_def)

lemma load_sample:
  "fs default_file = Some sample_book \<Longrightarrow>
     load_excel_try nd fs default_file = Inr (entradas_loaded, familias_sample, merged_sample)"
  by (simp add: load_excel_try_def read_excel_def sample_book_def convert_sample merge_sample)


lemma call_sample:
  "call_load_excel nd only_default default_file
     = ((Some entradas_loaded, Some familias_sample, Some merged_sample), [], loaded_default)"
  by (simp add: call_load_excel_def load_excel_cached_def load_excel_def load_sample
        only_default_def loaded_default_def Let_def)

lemma default_sample:
  "default_step nd only_default
     = ((Some entradas_loaded, Some familias_sample, Some merged_sample),
        [Sidebar_info ''Archivo por defecto encontrado en la carpeta data''], loaded_default)"
  by (simp add: default_step_def call_sample) (simp add: only_default_def)

lemma listdir_sample: "listdir_uploads loaded_default = []"
  by (simp add: listdir_uploads_def loaded_default_def default_file_def)

lemma previous_sample: "previous_step nd inp t loaded_default = (t, [], loaded_default)"
  by (simp add: previous_step_def previous_files_def listdir_sample)

lemma resolve_sample:
  "uploaded_file inp = None \<Longrightarrow>
   fst (resolve_tables nd inp only_default)
     = (Some entradas_loaded, Some familias_sample, Some merged_sample)"
  by (simp add: resolve_tables_def default_sample previous_sample upload_step_def)











lemma exact_numerics_exact: "exact_on_integers exact_numerics"
  by (simp add: exact_on_integers_def exact_numerics_def)

subsection \<open>Value by month\<close>































end
